theory Spec2Isabelle
  imports Main
begin

section \<open>Shared vocabulary\<close>

text \<open>
  Errors that travel through the callbacks of the share code. \<open>SMBError\<close> is
  \<^verbatim>\<open>new SMBError(status, message)\<close>, \<open>FromSystemError\<close> is
  \<^verbatim>\<open>SMBError.fromSystemError(err, message)\<close> (the conversion lives outside the
  modelled files, so it is kept as a constructor around its arguments), and \<open>Raw\<close> is
  an error value handed on as it was received (a string or a library error object).
\<close>

datatype ntstatus = STATUS_ACCESS_DENIED | STATUS_UNSUCCESSFUL | STATUS_NOT_SUPPORTED

datatype err =
    SMBError ntstatus string
  | FromSystemError string "string option"
  | Raw string

text \<open>The value of a configuration entry, as far as \<^verbatim>\<open>typeof\<close> tells values apart.\<close>

datatype jsvalue = JUndefined | JNull | JBoolean bool | JNumber int | JString string

section \<open>RQShare: download coordination and the list cache\<close>

text \<open>
  A tree handle, seen through the two methods the share calls on it:
  \<^verbatim>\<open>tree.isTempFileName(path)\<close> and \<^verbatim>\<open>tree.open(name, cb)\<close>. The type \<open>'f\<close> is the
  type of opened file handles.
\<close>

record 'f tree =
  isTempFileName :: "string \<Rightarrow> bool"
  open_file :: "string \<Rightarrow> err + 'f"

text \<open>An entry of \<^verbatim>\<open>waits[path]\<close>: \<^verbatim>\<open>{ tree: tree, callback: cb }\<close>. Callbacks are
  named by numbers; calling one is recorded in the list of invoked callbacks that every
  operation returns.\<close>

record 'f waiter =
  waiter_tree :: "'f tree"
  callback :: nat

record listCacheEntry =
  timestamp :: int
  files :: "string list"

record 'f rqshare =
  listCache :: "string \<rightharpoonup> listCacheEntry"
  contentCacheTTL :: int
  waits :: "string \<rightharpoonup> 'f waiter list"
  downloadingFiles :: "string \<rightharpoonup> bool"

text \<open>The part of the constructor that sets the fields above; its argument is
  \<^verbatim>\<open>config.contentCacheTTL\<close>.\<close>

definition RQShare :: "jsvalue \<Rightarrow> 'f rqshare" where
  "RQShare ttl =
     \<lparr> listCache = Map.empty,
       contentCacheTTL = (case ttl of JNumber n \<Rightarrow> n | _ \<Rightarrow> 30000),
       waits = Map.empty,
       downloadingFiles = Map.empty \<rparr>"

definition notifyDownloadComplete :: "'f rqshare \<Rightarrow> 'f tree \<Rightarrow> string \<Rightarrow> 'f rqshare \<times> nat list" where
  "notifyDownloadComplete self tree path =
     (case waits self path of
        Some ws \<Rightarrow> (self\<lparr>waits := (waits self)(path \<mapsto> [])\<rparr>, map callback ws)
      | None \<Rightarrow> (self, []))"

definition isDownloading :: "'f rqshare \<Rightarrow> 'f tree \<Rightarrow> string \<Rightarrow> bool" where
  "isDownloading self tree path =
     (if \<not> isTempFileName tree path
      then (case downloadingFiles self path of Some b \<Rightarrow> b | None \<Rightarrow> False)
      else False)"

definition waitOnDownload :: "'f rqshare \<Rightarrow> 'f tree \<Rightarrow> string \<Rightarrow> nat \<Rightarrow> 'f rqshare \<times> nat list" where
  "waitOnDownload self tree path cb =
     (if isDownloading self tree path
      then (let ws = (case waits self path of None \<Rightarrow> [] | Some ws \<Rightarrow> ws)
            in (self\<lparr>waits := (waits self)(path \<mapsto> ws @ [\<lparr>waiter_tree = tree, callback = cb\<rparr>])\<rparr>, []))
      else (self, [cb]))"

definition setDownloading :: "'f rqshare \<Rightarrow> 'f tree \<Rightarrow> string \<Rightarrow> bool \<Rightarrow> 'f rqshare \<times> nat list" where
  "setDownloading self tree path downloading =
     (let wasDownloading = isDownloading self tree path;
          self' = self\<lparr>downloadingFiles := (downloadingFiles self)(path \<mapsto> downloading)\<rparr>
      in if wasDownloading \<and> \<not> downloading
         then notifyDownloadComplete self' tree path
         else (self', []))"

text \<open>The waiters currently registered for a path (none when \<^verbatim>\<open>waits[path]\<close> is unset).\<close>

definition waiters :: "'f rqshare \<Rightarrow> string \<Rightarrow> 'f waiter list" where
  "waiters self path = (case waits self path of None \<Rightarrow> [] | Some ws \<Rightarrow> ws)"

text \<open>A run of \<^verbatim>\<open>waitOnDownload\<close> calls for one path, each with its own tree handle and
  callback; the callbacks invoked on the way are collected in call order.\<close>

fun waitOnDownloads :: "'f rqshare \<Rightarrow> string \<Rightarrow> ('f tree \<times> nat) list \<Rightarrow> 'f rqshare \<times> nat list" where
  "waitOnDownloads self path [] = (self, [])"
| "waitOnDownloads self path ((tree, cb) # rest) =
     (case waitOnDownload self tree path cb of
        (self', called) \<Rightarrow>
          (case waitOnDownloads self' path rest of
             (self'', called') \<Rightarrow> (self'', called @ called')))"

text \<open>\<^verbatim>\<open>cacheList\<close>: the paths of the listed files are stored with the current time.\<close>

definition cacheList :: "'f rqshare \<Rightarrow> int \<Rightarrow> string \<Rightarrow> string list \<Rightarrow> 'f rqshare" where
  "cacheList self now path names =
     self\<lparr>listCache := (listCache self)(path \<mapsto> \<lparr>timestamp = now, files = names\<rparr>)\<rparr>"

text \<open>The inner \<^verbatim>\<open>addFile(index, files)\<close> of \<^verbatim>\<open>getListCache\<close>: it opens the cached names
  one after the other and stops at the first error.\<close>

function addFile :: "'f tree \<Rightarrow> string list \<Rightarrow> nat \<Rightarrow> 'f list \<Rightarrow> err + 'f list" where
  "addFile tree cache index acc =
     (if index < length cache
      then (case open_file tree (cache ! index) of
              Inl e \<Rightarrow> Inl e
            | Inr rqFile \<Rightarrow> addFile tree cache (index + 1) (acc @ [rqFile]))
      else Inr acc)"
  by pat_completeness auto
termination
  by (relation "measure (\<lambda>(tree, cache, index, acc). length cache - index)") auto

declare addFile.simps [simp del]

text \<open>\<^verbatim>\<open>getListCache\<close>, with the clock reading \<open>now\<close> as an argument. The result is what the
  callback receives: \<open>Inr None\<close> for \<^verbatim>\<open>cb()\<close> (a miss), \<open>Inl e\<close> for \<^verbatim>\<open>cb(err)\<close> and
  \<open>Inr (Some fs)\<close> for \<^verbatim>\<open>cb(null, files)\<close>.\<close>

definition getListCache ::
  "'f rqshare \<Rightarrow> int \<Rightarrow> string \<Rightarrow> 'f tree \<Rightarrow> 'f rqshare \<times> (err + 'f list option)" where
  "getListCache self now path tree =
     (case listCache self path of
        Some entry \<Rightarrow>
          if now - timestamp entry > contentCacheTTL self
          then (self\<lparr>listCache := (listCache self)(path := None)\<rparr>, Inr None)
          else (case addFile tree (files entry) 0 [] of
                  Inl e \<Rightarrow> (self, Inl e)
                | Inr fs \<Rightarrow> (self, Inr (Some fs)))
      | None \<Rightarrow> (self, Inr None))"

text \<open>Modelled from the spec: \<^verbatim>\<open>RQTree.isTempFileName\<close> (lib/backends/rq/tree.js) is not
  part of the modelled files. The spec's path classifier says that a temp path is one
  whose last path segment begins with a period.\<close>

definition nameOf :: "string \<Rightarrow> string" where
  "nameOf p = rev (takeWhile (\<lambda>c. c \<noteq> CHR ''/'') (rev p))"

definition isTempName :: "string \<Rightarrow> bool" where
  "isTempName p = (case nameOf p of [] \<Rightarrow> False | c # _ \<Rightarrow> c = CHR ''.'')"

section \<open>DAMShare: chunked upload and the dot-file guard\<close>

datatype reqMethod = PUT | POST | DELETE | MOVE | COPY

text \<open>The three entries of \<^verbatim>\<open>self.config\<close> that the uploader reads. \<open>None\<close> is an entry
  that is not set; sizes and counts are natural numbers.\<close>

record config =
  chunkUploadSize :: "nat option"
  maxRetries :: "nat option"
  retryDelay :: "nat option"

text \<open>\<^verbatim>\<open>chunkOptions\<close>: \<open>onChunk\<close> answers with the \<^verbatim>\<open>cancel\<close> flag it passes to its
  callback; its first argument numbers the chunk request it follows, so that a callback
  with a memory can be described.\<close>

record chunkOptions =
  includeLocalPath :: bool
  fromOffset :: "nat option"
  onChunk :: "(nat \<Rightarrow> nat \<Rightarrow> nat \<Rightarrow> bool) option"

definition noOptions :: chunkOptions where
  "noOptions = \<lparr> includeLocalPath = False, fromOffset = None, onChunk = None \<rparr>"

text \<open>The object that \<^verbatim>\<open>webutils.monitorTransferProgress\<close> hands to its callback.\<close>

record progress =
  progressPath :: string
  read :: int
  total :: nat
  rate :: nat

text \<open>What comes back from a submitted HTTP request, and what can happen to a chunk
  request: the request completes (with a transport error or a status code), it is
  aborted, or reading the local file fails.\<close>

datatype httpResponse = HttpError string | HttpStatus nat

datatype response = Completed httpResponse | Aborted | ReadFailed string

text \<open>The first argument of the chunk callback: an error, or the object
  \<^verbatim>\<open>{error: error, ignoreEmit: true}\<close> of an aborted request.\<close>

datatype chunkError = Plain err | AbortInfo err bool

text \<open>The fields of one chunk request: whether the \<^verbatim>\<open>x-chunked-*\<close> headers are still
  among the request options, the form fields, and the range of the read stream.\<close>

record chunkRequest =
  chunkedHeaders :: bool
  replaceAsset :: bool
  fileOffset :: "nat option"
  chunkLength :: nat
  fileLength :: nat
  fileCompleted :: bool
  readStart :: nat
  readEnd :: int

text \<open>Everything the share does that can be seen from outside, in the order it is done.\<close>

datatype action =
    IsReadOnly string
  | Stat string
  | EmitSyncFileStart string reqMethod "string option"
  | EmitSyncFileEnd string reqMethod "string option"
  | EmitSyncFileError string reqMethod err "string option"
  | EmitSyncFileProgress progress
  | SetTimeout nat
  | SubmitChunk chunkRequest
  | OnChunk nat nat
  | InvalidateContentCache string bool
  | SubmitDelete string
  | JCRShareCall reqMethod string

text \<open>HTTP traffic among the actions: the content lookup behind \<^verbatim>\<open>isReadOnly\<close>, chunk and
  delete requests, and the calls handed on to the JCR share.\<close>

fun isHttpRequest :: "action \<Rightarrow> bool" where
  "isHttpRequest (IsReadOnly _) = True"
| "isHttpRequest (SubmitChunk _) = True"
| "isHttpRequest (SubmitDelete _) = True"
| "isHttpRequest (JCRShareCall _ _) = True"
| "isHttpRequest _ = False"

text \<open>The content of a remote entity as far as \<^verbatim>\<open>isReadOnly\<close> reads it: \<open>Content None\<close>
  has no properties, \<open>Content (Some b)\<close> has properties whose \<^verbatim>\<open>asset:readonly\<close> is
  truthy exactly when \<open>b\<close>.\<close>

datatype content = Content "bool option"

text \<open>The collaborators outside the modelled files: the remote (content lookups, chunk
  requests by their number within an upload, delete requests, the JCR share's own
  operations), the local file system, the progress monitor and two string helpers.\<close>

record env =
  getContent :: "string \<Rightarrow> string + content option"
  stat :: "string \<Rightarrow> string + nat"
  respond :: "nat \<Rightarrow> response"
  progressReports :: "nat \<Rightarrow> progress list"
  deleteRespond :: "string \<Rightarrow> httpResponse"
  jcrShare :: "reqMethod \<Rightarrow> string \<Rightarrow> err option"
  unicodeNormalize :: "string \<Rightarrow> string"
  getParentPath :: "string \<Rightarrow> string"

fun decimal :: "nat \<Rightarrow> string" where
  "decimal n = (if n < 10 then [char_of (48 + n)] else decimal (n div 10) @ [char_of (48 + n mod 10)])"

declare decimal.simps [simp del]

definition isReadOnly :: "env \<Rightarrow> string \<Rightarrow> string + bool" where
  "isReadOnly e path =
     (case getContent e path of
        Inl er \<Rightarrow> Inl er
      | Inr None \<Rightarrow> Inr False
      | Inr (Some (Content props)) \<Rightarrow>
          Inr (case props of None \<Rightarrow> False | Some readOnly \<Rightarrow> readOnly))"

definition chunkSizeFixed :: "config \<Rightarrow> nat" where
  "chunkSizeFixed cfg =
     (case chunkUploadSize cfg of None \<Rightarrow> 10 | Some n \<Rightarrow> if n = 0 then 10 else n) * (1024 * 1024)"

definition maxRetriesOf :: "config \<Rightarrow> nat" where
  "maxRetriesOf cfg = (case maxRetries cfg of None \<Rightarrow> 3 | Some n \<Rightarrow> if n = 0 then 3 else n)"

definition retryDelayOf :: "config \<Rightarrow> nat" where
  "retryDelayOf cfg = (case retryDelay cfg of None \<Rightarrow> 3000 | Some n \<Rightarrow> if n = 0 then 3000 else n)"

text \<open>\<^verbatim>\<open>_uploadChunk\<close> for the request numbered \<open>n\<close>. It returns the actions of the request,
  whether the request options still carry the \<^verbatim>\<open>x-chunked-*\<close> headers afterwards, and the
  two arguments of the chunk callback. It is only called under the loop test
  \<^verbatim>\<open>chunkOffset < totalSize\<close>, where the subtraction below is exact.\<close>

definition uploadChunk ::
  "env \<Rightarrow> nat \<Rightarrow> bool \<Rightarrow> nat \<Rightarrow> nat \<Rightarrow> nat \<Rightarrow> bool \<Rightarrow> action list \<times> bool \<times> chunkError option \<times> nat" where
  "uploadChunk e n headers off totalSize fixed replace =
     (let headers' = (if off > 0 then False else headers);
          chunkSize = (if off + fixed < totalSize then fixed else totalSize - off);
          request = \<lparr> chunkedHeaders = headers',
                      replaceAsset = replace,
                      fileOffset = (if fixed < totalSize then Some off else None),
                      chunkLength = chunkSize,
                      fileLength = totalSize,
                      fileCompleted = (off \<ge> totalSize),
                      readStart = off,
                      readEnd = int chunkSize + int off - 1 \<rparr>;
          reports = map (\<lambda>p. EmitSyncFileProgress (p\<lparr>read := read p + int off - int chunkSize\<rparr>))
                      (progressReports e n);
          outcome =
            (case respond e n of
               Completed (HttpError er) \<Rightarrow>
                 Some (Plain (FromSystemError er (Some ''unexpected error in request while uploading'')))
             | Completed (HttpStatus code) \<Rightarrow>
                 if code = 423
                 then Some (Plain (SMBError STATUS_ACCESS_DENIED ''Asset is checked out by another user''))
                 else if code \<noteq> 200 \<and> code \<noteq> 201
                 then Some (Plain (SMBError STATUS_UNSUCCESSFUL (''unexpected status code: '' @ decimal code)))
                 else None
             | Aborted \<Rightarrow> Some (AbortInfo (SMBError STATUS_UNSUCCESSFUL ''upload was aborted'') True)
             | ReadFailed er \<Rightarrow> Some (Plain (FromSystemError er None)))
      in (SubmitChunk request # reports, headers', outcome, chunkSize))"

text \<open>The local variables of \<^verbatim>\<open>_doChunkUpload\<close> that the loop changes, with the state of the
  shared request options, the number of chunk requests submitted so far, and the actions
  so far.\<close>

record loopState =
  chunkOffset :: nat
  continueUpload :: bool
  retries :: nat
  currDelay :: nat
  optionHeaders :: bool
  requestNo :: nat
  actions :: "action list"

text \<open>One round of the \<^verbatim>\<open>async.whilst\<close> body: the timer, the chunk request and the chunk
  callback. The second component is the error the round ends the loop with, if any.\<close>

definition iteration ::
  "env \<Rightarrow> config \<Rightarrow> chunkOptions \<Rightarrow> bool \<Rightarrow> nat \<Rightarrow> loopState \<Rightarrow> loopState \<times> chunkError option" where
  "iteration e cfg opts replace totalSize st =
     (case uploadChunk e (requestNo st) (optionHeaders st) (chunkOffset st) totalSize
             (chunkSizeFixed cfg) replace of
        (acts, headers, error, chunkSize) \<Rightarrow>
          (let st1 = st\<lparr> actions := actions st @ SetTimeout (currDelay st) # acts,
                         optionHeaders := headers,
                         requestNo := Suc (requestNo st) \<rparr>;
               st2 = (case error of
                        None \<Rightarrow>
                          st1\<lparr> chunkOffset := chunkOffset st1 + chunkSize, retries := 0, currDelay := 0 \<rparr>
                      | Some (AbortInfo er ig) \<Rightarrow> st1\<lparr> retries := maxRetriesOf cfg \<rparr>
                      | Some (Plain er) \<Rightarrow>
                          st1\<lparr> retries := retries st1 + 1, currDelay := retryDelayOf cfg \<rparr>)
           in if retries st2 \<ge> maxRetriesOf cfg then (st2, error)
              else (case onChunk opts of
                      Some f \<Rightarrow>
                        (st2\<lparr> actions := actions st2 @ [OnChunk (chunkOffset st2) totalSize],
                              continueUpload := \<not> f (requestNo st) (chunkOffset st2) totalSize \<rparr>,
                         None)
                    | None \<Rightarrow> (st2, None))))"

function whilst ::
  "env \<Rightarrow> config \<Rightarrow> chunkOptions \<Rightarrow> bool \<Rightarrow> nat \<Rightarrow> loopState \<Rightarrow> loopState \<times> chunkError option" where
  "whilst e cfg opts replace totalSize st =
     (if chunkOffset st < totalSize \<and> continueUpload st
      then (case iteration e cfg opts replace totalSize st of
              (st', Some er) \<Rightarrow> (st', Some er)
            | (st', None) \<Rightarrow> whilst e cfg opts replace totalSize st')
      else (st, None))"
  by pat_completeness auto
termination
proof (relation "measures [\<lambda>(e, cfg, opts, replace, totalSize, st). totalSize - chunkOffset st,
                           \<lambda>(e, cfg, opts, replace, totalSize, st). maxRetriesOf cfg - retries st]")
  show "wf (measures [\<lambda>(e, cfg, opts, replace, totalSize, st). totalSize - chunkOffset st,
                      \<lambda>(e, cfg, opts, replace, totalSize, st). maxRetriesOf cfg - retries st])"
    by simp
next
  fix e :: env and cfg :: config and opts :: chunkOptions and replace :: bool
    and totalSize :: nat and st st' :: loopState and r :: "chunkError option"
  assume test: "chunkOffset st < totalSize \<and> continueUpload st"
    and x: "(st', r) = iteration e cfg opts replace totalSize st" and r: "r = None"
  have fixed: "0 < chunkSizeFixed cfg"
    by (simp add: chunkSizeFixed_def split: option.splits)
  from x r have it: "iteration e cfg opts replace totalSize st = (st', None)"
    by simp
  have "chunkOffset st < chunkOffset st' \<or>
        (chunkOffset st' = chunkOffset st \<and> retries st < retries st' \<and> retries st' < maxRetriesOf cfg)"
    using it test fixed
    by (auto simp: iteration_def uploadChunk_def Let_def
             split: option.splits chunkError.splits if_splits response.splits httpResponse.splits)
  then show "((e, cfg, opts, replace, totalSize, st'), (e, cfg, opts, replace, totalSize, st))
        \<in> measures [\<lambda>(e, cfg, opts, replace, totalSize, st). totalSize - chunkOffset st,
                      \<lambda>(e, cfg, opts, replace, totalSize, st). maxRetriesOf cfg - retries st]"
    using test by auto
qed

declare whilst.simps [simp del]

text \<open>\<^verbatim>\<open>_completeUpload\<close>: the actions it performs and the argument of the caller's
  callback.\<close>

definition completeUpload ::
  "env \<Rightarrow> string \<Rightarrow> reqMethod \<Rightarrow> string option \<Rightarrow> chunkError option \<Rightarrow> action list \<times> err option" where
  "completeUpload e remotePath meth localEventPath error =
     (case error of
        Some er \<Rightarrow>
          (let (doEmit, er') = (case er of AbortInfo inner ignoreEmit \<Rightarrow> (\<not> ignoreEmit, inner)
                                         | Plain plain \<Rightarrow> (True, plain))
           in ((if doEmit then [EmitSyncFileError remotePath meth er' localEventPath] else []),
               Some er'))
      | None \<Rightarrow>
          ([InvalidateContentCache (getParentPath e remotePath) True,
            EmitSyncFileEnd remotePath meth localEventPath], None))"

text \<open>The loop variables as the callback of \<^verbatim>\<open>fs.stat\<close> initialises them.\<close>

definition initialState :: "chunkOptions \<Rightarrow> loopState" where
  "initialState opts =
     \<lparr> chunkOffset = (case fromOffset opts of None \<Rightarrow> 0 | Some n \<Rightarrow> n),
       continueUpload = True, retries = 0, currDelay = 0,
       optionHeaders = True, requestNo = 0, actions = [] \<rparr>"

text \<open>The callback of \<^verbatim>\<open>fs.stat\<close> once the size is known: the start event, the loop,
  and \<^verbatim>\<open>_completeUpload\<close>.\<close>

definition uploadChunks ::
  "env \<Rightarrow> config \<Rightarrow> chunkOptions \<Rightarrow> string \<Rightarrow> reqMethod \<Rightarrow> string option \<Rightarrow> bool \<Rightarrow> nat
     \<Rightarrow> action list \<times> err option" where
  "uploadChunks e cfg opts remotePath meth localEventPath replace totalSize =
     (case whilst e cfg opts replace totalSize (initialState opts) of
        (st, error) \<Rightarrow>
          (case completeUpload e remotePath meth localEventPath error of
             (finish, result) \<Rightarrow>
               (EmitSyncFileStart remotePath meth localEventPath # actions st @ finish, result)))"

definition doChunkUpload ::
  "env \<Rightarrow> config \<Rightarrow> string \<Rightarrow> string \<Rightarrow> bool \<Rightarrow> chunkOptions \<Rightarrow> action list \<times> err option" where
  "doChunkUpload e cfg remotePath0 localPath replace opts =
     (let meth = (if replace then PUT else POST);
          remotePath = unicodeNormalize e remotePath0;
          localEventPath = (if includeLocalPath opts then Some localPath else None);
          upload =
            (case stat e localPath of
               Inl er \<Rightarrow>
                 ([Stat localPath],
                  Some (FromSystemError er (Some (''unable to stat file '' @ localPath))))
             | Inr totalSize \<Rightarrow>
                 (case uploadChunks e cfg opts remotePath meth localEventPath replace totalSize of
                    (acts, result) \<Rightarrow> (Stat localPath # acts, result)))
      in if replace
         then (case isReadOnly e remotePath of
                 Inl er \<Rightarrow>
                   (case completeUpload e remotePath meth localEventPath (Some (Plain (Raw er))) of
                      (acts, result) \<Rightarrow> (IsReadOnly remotePath # acts, result))
               | Inr checkedOut \<Rightarrow>
                   if checkedOut
                   then (case completeUpload e remotePath meth localEventPath
                                (Some (Plain (SMBError STATUS_ACCESS_DENIED
                                   ''Asset is checked out by another user''))) of
                           (acts, result) \<Rightarrow> (IsReadOnly remotePath # acts, result))
                   else (case upload of (acts, result) \<Rightarrow> (IsReadOnly remotePath # acts, result)))
         else upload)"

text \<open>\<^verbatim>\<open>path.match(/\/\./g)\<close>: the path has a slash followed by a period somewhere.\<close>

fun matchSlashDot :: "string \<Rightarrow> bool" where
  "matchSlashDot (a # b # cs) = ((a = CHR ''/'' \<and> b = CHR ''.'') \<or> matchSlashDot (b # cs))"
| "matchSlashDot _ = False"

text \<open>\<^verbatim>\<open>checkDotFile\<close>: \<open>Some\<close> of the actions and the error passed to the callback when it
  returns true, \<open>None\<close> when it returns false.\<close>

definition checkDotFile ::
  "string \<Rightarrow> reqMethod \<Rightarrow> string option \<Rightarrow> chunkOptions \<Rightarrow> (action list \<times> err) option" where
  "checkDotFile path meth localPath opts =
     (if matchSlashDot path
      then Some ([EmitSyncFileError path meth
                    (Raw (''files containing names beginning with a period are forbidden: '' @ path))
                    (if includeLocalPath opts then localPath else None)],
                 SMBError STATUS_NOT_SUPPORTED
                    ''files containing names beginning with a period are forbidden'')
      else None)"

text \<open>\<^verbatim>\<open>_updateResource\<close> and \<^verbatim>\<open>_createFileResource\<close>. A local path is \<open>None\<close> when the
  argument is \<^verbatim>\<open>null\<close> or \<^verbatim>\<open>undefined\<close>; the empty string is falsy as well. Without a
  local path the call is handed on to the JCR share, whose answer comes from the
  environment. \<^verbatim>\<open>_createFileResource\<close> called without options gets \<open>noOptions\<close>.\<close>

definition updateResource :: "env \<Rightarrow> config \<Rightarrow> string \<Rightarrow> string option \<Rightarrow> action list \<times> err option" where
  "updateResource e cfg remotePath localPath =
     (case checkDotFile remotePath PUT localPath noOptions of
        Some (acts, er) \<Rightarrow> (acts, Some er)
      | None \<Rightarrow>
          (case localPath of
             Some file \<Rightarrow>
               if file \<noteq> []
               then doChunkUpload e cfg remotePath file True noOptions
               else ([JCRShareCall PUT remotePath], jcrShare e PUT remotePath)
           | None \<Rightarrow> ([JCRShareCall PUT remotePath], jcrShare e PUT remotePath)))"

definition createFileResource ::
  "env \<Rightarrow> config \<Rightarrow> string \<Rightarrow> string option \<Rightarrow> chunkOptions \<Rightarrow> action list \<times> err option" where
  "createFileResource e cfg remotePath localPath opts =
     (case checkDotFile remotePath POST localPath opts of
        Some (acts, er) \<Rightarrow> (acts, Some er)
      | None \<Rightarrow>
          (case localPath of
             Some file \<Rightarrow>
               if file \<noteq> []
               then doChunkUpload e cfg remotePath file False opts
               else ([JCRShareCall POST remotePath], jcrShare e POST remotePath)
           | None \<Rightarrow> ([JCRShareCall POST remotePath], jcrShare e POST remotePath)))"

text \<open>\<^verbatim>\<open>sendCallback\<close> of \<^verbatim>\<open>_deleteResource\<close>.\<close>

definition sendCallback :: "string \<Rightarrow> bool \<Rightarrow> err option \<Rightarrow> action list \<times> err option" where
  "sendCallback path isFile error =
     (case error of
        Some er \<Rightarrow> ((if isFile then [EmitSyncFileError path DELETE er None] else []), Some er)
      | None \<Rightarrow> ((if isFile then [EmitSyncFileEnd path DELETE None] else []), None))"

definition deleteResource :: "env \<Rightarrow> string \<Rightarrow> bool \<Rightarrow> action list \<times> err option" where
  "deleteResource e path isFile =
     (case checkDotFile path DELETE None noOptions of
        Some (acts, er) \<Rightarrow> (acts, Some er)
      | None \<Rightarrow>
          (let lookup = (if isFile then [IsReadOnly path] else []);
               checked = (if isFile then isReadOnly e path else Inr False)
           in case checked of
                Inl er \<Rightarrow>
                  (case sendCallback path isFile
                          (Some (FromSystemError er
                             (Some ''unable to determine checked out status of path''))) of
                     (acts, result) \<Rightarrow> (lookup @ acts, result))
              | Inr readOnly \<Rightarrow>
                  if readOnly
                  then (case sendCallback path isFile
                               (Some (SMBError STATUS_ACCESS_DENIED
                                  ''cannot delete file because it is checked out'')) of
                          (acts, result) \<Rightarrow> (lookup @ acts, result))
                  else (let start = (if isFile then [EmitSyncFileStart path DELETE None] else []);
                            finish =
                              (case deleteRespond e path of
                                 HttpError er \<Rightarrow>
                                   sendCallback path isFile
                                     (Some (FromSystemError er
                                        (Some ''unable to delete file due to unexpected error'')))
                               | HttpStatus code \<Rightarrow>
                                   if code \<noteq> 200
                                   then sendCallback path isFile
                                          (Some (SMBError STATUS_UNSUCCESSFUL
                                             (''cannot delete file due to '' @ decimal code @
                                              '' response code'')))
                                   else (case sendCallback path isFile None of
                                           (acts, result) \<Rightarrow>
                                             (InvalidateContentCache path False # acts, result)))
                        in case finish of
                             (acts, result) \<Rightarrow> (lookup @ start @ SubmitDelete path # acts, result))))"

section \<open>The overlay tree's queue and visibility rules\<close>

text \<open>Modelled from the spec: the request queue and \<^verbatim>\<open>RQTree.queueData\<close>
  (lib/backends/rq/requestqueue.js and lib/backends/rq/tree.js are not part of the
  modelled files; only their tests are). The queue holds one entry per path, in insertion
  order. \<open>enqueue\<close> follows the spec's coalescing table: a new PUT or POST over a queued
  PUT stays a PUT, over a POST or a DELETE it becomes a POST; a DELETE removes a queued
  PUT and replaces anything else.\<close>

type_synonym queue = "(string \<times> reqMethod) list"

fun queued :: "queue \<Rightarrow> string \<Rightarrow> reqMethod option" where
  "queued [] p = None"
| "queued ((k, m) # q) p = (if k = p then Some m else queued q p)"

fun setEntry :: "queue \<Rightarrow> string \<Rightarrow> reqMethod \<Rightarrow> queue" where
  "setEntry [] p m = [(p, m)]"
| "setEntry ((k, m') # q) p m = (if k = p then (k, m) # q else (k, m') # setEntry q p m)"

fun removeEntry :: "queue \<Rightarrow> string \<Rightarrow> queue" where
  "removeEntry [] p = []"
| "removeEntry ((k, m) # q) p = (if k = p then removeEntry q p else (k, m) # removeEntry q p)"

text \<open>Modelled from the spec: the coalescing table of the request queue, for the three
  methods that stay in the queue. \<open>None\<close> stands for removing the entry.\<close>

fun coalesce :: "reqMethod option \<Rightarrow> reqMethod \<Rightarrow> reqMethod option" where
  "coalesce None m = Some m"
| "coalesce (Some PUT) PUT = Some PUT"
| "coalesce (Some POST) PUT = Some POST"
| "coalesce (Some DELETE) PUT = Some POST"
| "coalesce (Some PUT) POST = Some PUT"
| "coalesce (Some POST) POST = Some POST"
| "coalesce (Some DELETE) POST = Some POST"
| "coalesce (Some PUT) DELETE = None"
| "coalesce (Some POST) DELETE = Some DELETE"
| "coalesce (Some DELETE) DELETE = Some DELETE"
| "coalesce (Some old) m = Some m"

definition enqueue :: "queue \<Rightarrow> string \<Rightarrow> reqMethod \<Rightarrow> queue" where
  "enqueue q p m =
     (case coalesce (queued q p) m of
        None \<Rightarrow> removeEntry q p
      | Some m' \<Rightarrow> setEntry q p m')"

text \<open>Modelled from the spec: \<^verbatim>\<open>queueData(path, verb, destination)\<close> after the spec's
  second table. Temp paths never enter the queue. A MOVE is a DELETE enqueued for a normal
  source followed by a PUT enqueued for a normal destination; a COPY leaves the source
  alone and enqueues a PUT for a normal destination; any other request is enqueued for the
  path itself and the destination is ignored. (A MOVE or a COPY always comes with a
  destination.)\<close>

definition queueData :: "queue \<Rightarrow> string \<Rightarrow> reqMethod \<Rightarrow> string option \<Rightarrow> queue" where
  "queueData q path meth dest =
     (case (meth, dest) of
        (MOVE, Some d) \<Rightarrow>
          (let q1 = (if isTempName path then q else enqueue q path DELETE)
           in if isTempName d then q1 else enqueue q1 d PUT)
      | (COPY, Some d) \<Rightarrow> (if isTempName d then q else enqueue q d PUT)
      | _ \<Rightarrow> (if isTempName path then q else enqueue q path meth))"

text \<open>Modelled from the spec: \<^verbatim>\<open>RQTree.exists\<close> (lib/backends/rq/tree.js is not part of the
  modelled files). The spec's visibility rule: a temp path is looked up locally only; a
  path the local tree has is visible; a path with a queued DELETE is not; otherwise the
  remote is asked, and a failure of that lookup counts as absent rather than as an error.
  The arguments are the answers of the local tree and of the remote for the path.\<close>

datatype lookupError = NetworkError string | RemoteStatus nat | ParseError string

definition exists_path ::
  "queue \<Rightarrow> string \<Rightarrow> (lookupError + bool) \<Rightarrow> (lookupError + bool) \<Rightarrow> lookupError + bool" where
  "exists_path q path local remote =
     (if isTempName path then local
      else (case local of
              Inl er \<Rightarrow> Inl er
            | Inr True \<Rightarrow> Inr True
            | Inr False \<Rightarrow>
                if queued q path = Some DELETE then Inr False
                else (case remote of
                        Inl er \<Rightarrow> Inr False
                      | Inr found \<Rightarrow> Inr found)))"

section \<open>Reading a run\<close>






fun isChunk :: "action \<Rightarrow> bool" where
  "isChunk (SubmitChunk r) = True"
| "isChunk a = False"







text \<open>The pieces of a path between its slashes.\<close>

fun splitPath :: "string \<Rightarrow> string list" where
  "splitPath [] = [[]]"
| "splitPath (c # cs) =
     (if c = CHR ''/'' then [] # splitPath cs
      else (case splitPath cs of [] \<Rightarrow> [[c]] | s # ss \<Rightarrow> (c # s) # ss))"

section \<open>Sample handles, shares and environments\<close>

text \<open>A tree handle whose temp names are the spec's and whose files open to their own
  names, and one on which every \<^verbatim>\<open>open\<close> fails.\<close>

definition rqTree :: "string tree" where
  "rqTree = \<lparr> isTempFileName = isTempName, open_file = (\<lambda>name. Inr name) \<rparr>"

definition offlineTree :: "string tree" where
  "offlineTree = \<lparr> isTempFileName = isTempName, open_file = (\<lambda>name. Inl (Raw ''offline'')) \<rparr>"

text \<open>A share whose listing of the root was cached at time 1000.\<close>

definition listedShare :: "string rqshare" where
  "listedShare = cacheList (RQShare JUndefined) 1000 ''/'' [''/a.jpg'', ''/b.jpg'']"

text \<open>A share on which \<^verbatim>\<open>/a.jpg\<close> is being downloaded.\<close>

definition busyShare :: "string rqshare" where
  "busyShare = fst (setDownloading (RQShare JUndefined) rqTree ''/a.jpg'' True)"

text \<open>A remote on which every request succeeds, a local file of five bytes, no progress
  reports; and variations of it.\<close>

definition quietEnv :: env where
  "quietEnv =
     \<lparr> getContent = (\<lambda>p. Inr None),
       stat = (\<lambda>p. Inr 5),
       respond = (\<lambda>n. Completed (HttpStatus 200)),
       progressReports = (\<lambda>n. []),
       deleteRespond = (\<lambda>p. HttpStatus 200),
       jcrShare = (\<lambda>m p. None),
       unicodeNormalize = (\<lambda>p. p),
       getParentPath = (\<lambda>p. ''/'') \<rparr>"







definition reportingEnv :: env where
  "reportingEnv =
     quietEnv\<lparr> progressReports :=
                 (\<lambda>n. [\<lparr> progressPath = ''/u.jpg'', read = 3, total = 5, rate = 1 \<rparr>]) \<rparr>"

definition defaultConfig :: config where
  "defaultConfig = \<lparr> chunkUploadSize = None, maxRetries = None, retryDelay = None \<rparr>"



section \<open>Download coordination\<close>

lemma waitOnDownloads_registers:
  "isDownloading self tree path \<Longrightarrow> \<forall>(t, c) \<in> set reqs. \<not> isTempFileName t path \<Longrightarrow>
   waitOnDownloads self path reqs =
     (if reqs = [] then self
      else self\<lparr>waits := (waits self)(path \<mapsto>
             waiters self path @ map (\<lambda>(t, c). \<lparr>waiter_tree = t, callback = c\<rparr>) reqs)\<rparr>, [])"
proof (induction reqs arbitrary: self)
  case Nil
  then show ?case by simp
next
  case (Cons r reqs)
  obtain t c where r: "r = (t, c)" by (cases r)
  from Cons.prems have nt: "\<not> isTempFileName t path" by (simp add: r)
  from Cons.prems(1) have d: "downloadingFiles self path = Some True"
    by (auto simp: isDownloading_def split: if_splits option.splits)
  have dt: "isDownloading self t path" using nt d by (simp add: isDownloading_def)
  let ?s = "self\<lparr>waits := (waits self)(path \<mapsto> waiters self path @ [\<lparr>waiter_tree = t, callback = c\<rparr>])\<rparr>"
  have w: "waitOnDownload self t path c = (?s, [])"
    using dt by (simp add: waitOnDownload_def waiters_def)
  have ds: "isDownloading ?s tree path"
    using Cons.prems(1) by (simp add: isDownloading_def split: if_splits)
  have rest: "\<forall>(t, c) \<in> set reqs. \<not> isTempFileName t path" using Cons.prems(2) by simp
  show ?case
    using Cons.IH [OF ds rest] w
    by (simp add: r waiters_def)
qed

text \<open>
  C1. While a path is marked downloading, every \<^verbatim>\<open>waitOnDownload\<close> for it (from tree
  handles for which the path is not a temp name) registers a waiter and invokes nothing.
  The \<^verbatim>\<open>setDownloading(tree, path, false)\<close> that ends the download then invokes the
  callbacks of all waiters of the path, each once and in the order of registration, and
  leaves the waiter list of the path empty, so that a later call invokes none of them
  again. A \<^verbatim>\<open>waitOnDownload\<close> for a path that is not marked downloading invokes its
  callback at once and leaves the share as it was. A callback is taken not to call back
  into the share while it runs.
\<close>

theorem download_complete_notifies_waiters:
  "(isDownloading self tree path \<and> (\<forall>(t, c) \<in> set reqs. \<not> isTempFileName t path) \<longrightarrow>
      (\<exists>self1 self2.
         waitOnDownloads self path reqs = (self1, []) \<and>
         waiters self1 path =
           waiters self path @ map (\<lambda>(t, c). \<lparr>waiter_tree = t, callback = c\<rparr>) reqs \<and>
         setDownloading self1 tree path False =
           (self2, map callback (waiters self path) @ map snd reqs) \<and>
         waiters self2 path = [] \<and>
         \<not> isDownloading self2 tree path \<and>
         snd (setDownloading self2 tree path False) = [])) \<and>
   (\<not> isDownloading self tree path \<longrightarrow> waitOnDownload self tree path cb = (self, [cb]))"
proof (intro conjI impI)
  assume "\<not> isDownloading self tree path"
  then show "waitOnDownload self tree path cb = (self, [cb])"
    by (simp add: waitOnDownload_def)
next
  assume a: "isDownloading self tree path \<and> (\<forall>(t, c) \<in> set reqs. \<not> isTempFileName t path)"
  let ?ws = "waiters self path @ map (\<lambda>(t, c). \<lparr>waiter_tree = t, callback = c\<rparr>) reqs"
  let ?s1 = "if reqs = [] then self else self\<lparr>waits := (waits self)(path \<mapsto> ?ws)\<rparr>"
  have reg: "waitOnDownloads self path reqs = (?s1, [])"
    using waitOnDownloads_registers a by blast
  have w1: "waiters ?s1 path = ?ws" by (simp add: waiters_def)
  have d1: "isDownloading ?s1 tree path"
    using a by (simp add: isDownloading_def split: if_splits)
  let ?s1' = "?s1\<lparr>downloadingFiles := (downloadingFiles ?s1)(path \<mapsto> False)\<rparr>"
  obtain self2 called where n: "notifyDownloadComplete ?s1' tree path = (self2, called)"
    by (cases "notifyDownloadComplete ?s1' tree path")
  have sd: "setDownloading ?s1 tree path False = (self2, called)"
    using d1 n by (simp add: setDownloading_def Let_def)
  have called: "called = map callback ?ws"
    using n w1 by (auto simp: notifyDownloadComplete_def waiters_def split: option.splits)
  have w2: "waiters self2 path = []"
    using n by (auto simp: notifyDownloadComplete_def waiters_def split: option.splits)
  have d2: "\<not> isDownloading self2 tree path"
    using n by (auto simp: notifyDownloadComplete_def isDownloading_def split: option.splits)
  have again: "snd (setDownloading self2 tree path False) = []"
    using d2 by (simp add: setDownloading_def Let_def)
  have cb: "map callback ?ws = map callback (waiters self path) @ map snd reqs"
    by (simp add: comp_def case_prod_beta)
  have sd': "setDownloading ?s1 tree path False =
      (self2, map callback (waiters self path) @ map snd reqs)"
    using sd called cb by simp
  from reg w1 sd' w2 d2 again show "\<exists>self1 self2.
         waitOnDownloads self path reqs = (self1, []) \<and>
         waiters self1 path =
           waiters self path @ map (\<lambda>(t, c). \<lparr>waiter_tree = t, callback = c\<rparr>) reqs \<and>
         setDownloading self1 tree path False =
           (self2, map callback (waiters self path) @ map snd reqs) \<and>
         waiters self2 path = [] \<and>
         \<not> isDownloading self2 tree path \<and>
         snd (setDownloading self2 tree path False) = []"
    by (intro exI [of _ ?s1] exI [of _ self2] conjI)
qed

lemma busyShare_downloading: "isDownloading busyShare rqTree ''/a.jpg''"
  by (simp add: busyShare_def setDownloading_def isDownloading_def RQShare_def Let_def
      rqTree_def isTempName_def nameOf_def)

lemma busyShare_no_waiters: "waiters busyShare ''/a.jpg'' = []"
  by (simp add: busyShare_def setDownloading_def isDownloading_def RQShare_def Let_def
      waiters_def)

theorem download_complete_notifies_waiters_witness:
  "isDownloading busyShare rqTree ''/a.jpg'' \<and>
   snd (waitOnDownloads busyShare ''/a.jpg'' [(rqTree, 1), (rqTree, 2)]) = [] \<and>
   snd (setDownloading (fst (waitOnDownloads busyShare ''/a.jpg'' [(rqTree, 1), (rqTree, 2)]))
          rqTree ''/a.jpg'' False) = [1, 2] \<and>
   waiters (fst (setDownloading (fst (waitOnDownloads busyShare ''/a.jpg'' [(rqTree, 1), (rqTree, 2)]))
          rqTree ''/a.jpg'' False)) ''/a.jpg'' = [] \<and>
   \<not> isDownloading (RQShare JUndefined) rqTree ''/a.jpg'' \<and>
   waitOnDownload (RQShare JUndefined) rqTree ''/a.jpg'' 3 = (RQShare JUndefined, [3])"
proof -
  have nt: "\<forall>(t, c) \<in> set [(rqTree, 1::nat), (rqTree, 2)]. \<not> isTempFileName t ''/a.jpg''"
    by (simp add: rqTree_def isTempName_def nameOf_def)
  have idle: "\<not> isDownloading (RQShare JUndefined) rqTree ''/a.jpg''"
    by (simp add: isDownloading_def RQShare_def)
  from download_complete_notifies_waiters
         [of busyShare rqTree "''/a.jpg''" "[(rqTree, 1), (rqTree, 2)]" 0]
       busyShare_downloading nt
  obtain self1 self2 where
    "waitOnDownloads busyShare ''/a.jpg'' [(rqTree, 1), (rqTree, 2)] = (self1, [])"
    "setDownloading self1 rqTree ''/a.jpg'' False =
       (self2, map callback (waiters busyShare ''/a.jpg'') @ map snd [(rqTree, 1::nat), (rqTree, 2)])"
    "waiters self2 ''/a.jpg'' = []"
    by blast
  moreover from download_complete_notifies_waiters
         [of "RQShare JUndefined" rqTree "''/a.jpg''" "[]" 3] idle
  have "waitOnDownload (RQShare JUndefined) rqTree ''/a.jpg'' 3 = (RQShare JUndefined, [3])"
    by blast
  ultimately show ?thesis
    using busyShare_downloading busyShare_no_waiters idle by simp
qed

section \<open>Temp paths\<close>

text \<open>
  C10. For a temp path, whatever \<^verbatim>\<open>downloadingFiles\<close> holds, \<^verbatim>\<open>isDownloading\<close> is false;
  \<^verbatim>\<open>waitOnDownload\<close> invokes its callback at once and registers no waiter; and also after
  \<^verbatim>\<open>setDownloading\<close> for the path, with either flag, the path is not seen as downloading
  and no waiter list has changed.
\<close>

theorem temp_path_never_downloading:
  "isTempFileName tree path \<Longrightarrow>
     isDownloading self tree path = False \<and>
     waitOnDownload self tree path cb = (self, [cb]) \<and>
     isDownloading (fst (setDownloading self tree path b)) tree path = False \<and>
     snd (setDownloading self tree path b) = [] \<and>
     waits (fst (setDownloading self tree path b)) = waits self"
  by (simp add: isDownloading_def waitOnDownload_def setDownloading_def Let_def)

theorem temp_path_never_downloading_witness:
  "isTempFileName rqTree ''/dir/.tmp'' \<and>
   isDownloading (fst (setDownloading (RQShare JUndefined) rqTree ''/dir/.tmp'' True))
     rqTree ''/dir/.tmp'' = False \<and>
   waitOnDownload (fst (setDownloading (RQShare JUndefined) rqTree ''/dir/.tmp'' True))
     rqTree ''/dir/.tmp'' 7 =
     (fst (setDownloading (RQShare JUndefined) rqTree ''/dir/.tmp'' True), [7])"
proof -
  have t: "isTempFileName rqTree ''/dir/.tmp''"
    by (simp add: rqTree_def isTempName_def nameOf_def)
  show ?thesis
    using t temp_path_never_downloading
      [OF t, of "fst (setDownloading (RQShare JUndefined) rqTree ''/dir/.tmp'' True)" 7]
    by simp
qed

section \<open>The list cache\<close>

lemma addFile_all_open:
  "\<forall>n \<in> set (drop index cache). \<exists>f. open_file tree n = Inr f \<Longrightarrow>
   addFile tree cache index acc =
     Inr (acc @ map (\<lambda>n. projr (open_file tree n)) (drop index cache))"
proof (induction tree cache index acc rule: addFile.induct)
  case (1 tree cache index acc)
  show ?case
  proof (cases "index < length cache")
    case False
    then show ?thesis by (simp add: addFile.simps [of tree cache index])
  next
    case True
    then have d: "drop index cache = cache ! index # drop (index + 1) cache"
      by (simp add: Cons_nth_drop_Suc)
    with "1.prems" obtain f where f: "open_file tree (cache ! index) = Inr f"
      by auto
    from "1.prems" d have rest: "\<forall>n \<in> set (drop (index + 1) cache). \<exists>f. open_file tree n = Inr f"
      by simp
    show ?thesis
      using "1.IH" [OF True f rest] True f d
      by (simp add: addFile.simps [of tree cache index])
  qed
qed

lemma addFile_first_error:
  "cache = pre @ n # post \<Longrightarrow> index \<le> length pre \<Longrightarrow>
   \<forall>m \<in> set pre. \<exists>f. open_file tree m = Inr f \<Longrightarrow> open_file tree n = Inl e \<Longrightarrow>
   addFile tree cache index acc = Inl e"
proof (induction tree cache index acc rule: addFile.induct)
  case (1 tree cache index acc)
  have lt: "index < length cache" using "1.prems" by simp
  show ?case
  proof (cases "index = length pre")
    case True
    then have "cache ! index = n" using "1.prems"(1) by simp
    then show ?thesis
      using lt "1.prems"(4) by (simp add: addFile.simps [of tree cache index])
  next
    case False
    then have less: "index < length pre" using "1.prems"(2) by simp
    then have "cache ! index \<in> set pre"
      using "1.prems"(1) by (simp add: nth_append)
    then obtain f where f: "open_file tree (cache ! index) = Inr f"
      using "1.prems"(3) by blast
    have "addFile tree cache (index + 1) (acc @ [f]) = Inl e"
      using "1.IH" [OF lt f "1.prems"(1) _ "1.prems"(3) "1.prems"(4)] less by simp
    then show ?thesis
      using lt f by (simp add: addFile.simps [of tree cache index])
  qed
qed

text \<open>
  C6, as the code has it. For a path with a cached listing: while
  \<open>now - timestamp \<le> contentCacheTTL\<close>, \<^verbatim>\<open>getListCache\<close> opens the cached names in stored
  order; when every \<^verbatim>\<open>open\<close> succeeds it returns the opened handles in that order and
  keeps the entry, and when one fails it returns the error of the first failing name
  instead of a listing. When the entry is older than \<open>contentCacheTTL\<close> it is cleared and
  the lookup is a miss. \<open>contentCacheTTL\<close> is the configured value when that is a number
  and 30000 otherwise.
\<close>

theorem getListCache_within_ttl:
  "listCache self path = Some entry \<Longrightarrow>
     (now - timestamp entry \<le> contentCacheTTL self \<and>
        (\<forall>n \<in> set (files entry). \<exists>f. open_file tree n = Inr f) \<longrightarrow>
        getListCache self now path tree =
          (self, Inr (Some (map (\<lambda>n. projr (open_file tree n)) (files entry))))) \<and>
     (now - timestamp entry \<le> contentCacheTTL self \<and> files entry = pre @ n # post \<and>
        (\<forall>m \<in> set pre. \<exists>f. open_file tree m = Inr f) \<and> open_file tree n = Inl e \<longrightarrow>
        getListCache self now path tree = (self, Inl e)) \<and>
     (now - timestamp entry > contentCacheTTL self \<longrightarrow>
        getListCache self now path tree =
          (self\<lparr>listCache := (listCache self)(path := None)\<rparr>, Inr None)) \<and>
     contentCacheTTL (RQShare (JNumber ms) :: 'f rqshare) = ms \<and>
     ((\<forall>k. ttl \<noteq> JNumber k) \<longrightarrow> contentCacheTTL (RQShare ttl :: 'f rqshare) = 30000)"
  for self :: "'f rqshare"
proof (intro conjI impI)
  assume c: "listCache self path = Some entry"
  {
    assume a: "now - timestamp entry \<le> contentCacheTTL self \<and>
        (\<forall>n \<in> set (files entry). \<exists>f. open_file tree n = Inr f)"
    then have "addFile tree (files entry) 0 [] =
        Inr (map (\<lambda>n. projr (open_file tree n)) (files entry))"
      using addFile_all_open [of 0 "files entry" tree "[]"] by simp
    with a c show "getListCache self now path tree =
          (self, Inr (Some (map (\<lambda>n. projr (open_file tree n)) (files entry))))"
      by (simp add: getListCache_def)
  }
  {
    assume a: "now - timestamp entry \<le> contentCacheTTL self \<and> files entry = pre @ n # post \<and>
        (\<forall>m \<in> set pre. \<exists>f. open_file tree m = Inr f) \<and> open_file tree n = Inl e"
    then have "addFile tree (files entry) 0 [] = Inl e"
      using addFile_first_error [of "files entry" pre n post 0 tree e "[]"] by simp
    with a c show "getListCache self now path tree = (self, Inl e)"
      by (simp add: getListCache_def)
  }
  {
    assume "now - timestamp entry > contentCacheTTL self"
    with c show "getListCache self now path tree =
          (self\<lparr>listCache := (listCache self)(path := None)\<rparr>, Inr None)"
      by (simp add: getListCache_def)
  }
  show "contentCacheTTL (RQShare (JNumber ms) :: 'f rqshare) = ms"
    by (simp add: RQShare_def)
  {
    assume "\<forall>k. ttl \<noteq> JNumber k"
    then show "contentCacheTTL (RQShare ttl :: 'f rqshare) = 30000"
      by (cases ttl) (simp_all add: RQShare_def)
  }
qed

lemma listedShare_entry:
  "listCache listedShare ''/'' = Some \<lparr>timestamp = 1000, files = [''/a.jpg'', ''/b.jpg'']\<rparr>"
  by (simp add: listedShare_def cacheList_def)

lemma listedShare_ttl: "contentCacheTTL listedShare = 30000"
  by (simp add: listedShare_def cacheList_def RQShare_def)

theorem getListCache_within_ttl_witness:
  "listCache listedShare ''/'' = Some \<lparr>timestamp = 1000, files = [''/a.jpg'', ''/b.jpg'']\<rparr> \<and>
   snd (getListCache listedShare 31000 ''/'' rqTree) = Inr (Some [''/a.jpg'', ''/b.jpg'']) \<and>
   snd (getListCache listedShare 31000 ''/'' offlineTree) = Inl (Raw ''offline'') \<and>
   snd (getListCache listedShare 31001 ''/'' rqTree) = Inr None \<and>
   listCache (fst (getListCache listedShare 31001 ''/'' rqTree)) ''/'' = None \<and>
   contentCacheTTL (RQShare (JString ''30'') :: string rqshare) = 30000"
proof -
  note e = listedShare_entry
  have ok: "\<forall>n \<in> set (files \<lparr>timestamp = 1000, files = [''/a.jpg'', ''/b.jpg'']\<rparr>).
              \<exists>f. open_file rqTree n = Inr f"
    by (simp add: rqTree_def)
  have bad: "open_file offlineTree ''/a.jpg'' = Inl (Raw ''offline'')"
    by (simp add: offlineTree_def)
  have a: "snd (getListCache listedShare 31000 ''/'' rqTree) = Inr (Some [''/a.jpg'', ''/b.jpg''])"
    using getListCache_within_ttl [OF e, of 31000 rqTree "[]" "''/a.jpg''" "[''/b.jpg'']"] ok
    by (simp add: listedShare_ttl rqTree_def)
  have b: "snd (getListCache listedShare 31000 ''/'' offlineTree) = Inl (Raw ''offline'')"
    using getListCache_within_ttl
      [OF e, of 31000 offlineTree "[]" "''/a.jpg''" "[''/b.jpg'']" "Raw ''offline''"] bad
    by (simp add: listedShare_ttl)
  have c: "getListCache listedShare 31001 ''/'' rqTree =
      (listedShare\<lparr>listCache := (listCache listedShare)(''/'' := None)\<rparr>, Inr None)"
    using getListCache_within_ttl [OF e, of 31001 rqTree]
    by (simp add: listedShare_ttl)
  have d: "contentCacheTTL (RQShare (JString ''30'') :: string rqshare) = 30000"
    using getListCache_within_ttl [OF e, where ttl = "JString ''30''"]
    by simp
  show ?thesis using e a b c d by simp
qed

lemma offlineTree_addFile:
  "addFile offlineTree [''/a.jpg'', ''/b.jpg''] 0 [] = Inl (Raw ''offline'')"
  by (subst addFile.simps) (simp add: offlineTree_def)

theorem getListCache_within_ttl_counterexample:
  "listCache listedShare ''/'' = Some \<lparr>timestamp = 1000, files = [''/a.jpg'', ''/b.jpg'']\<rparr> \<and>
   2000 - 1000 \<le> contentCacheTTL listedShare \<and>
   getListCache listedShare 2000 ''/'' offlineTree = (listedShare, Inl (Raw ''offline''))"
  by (simp add: listedShare_entry listedShare_ttl getListCache_def offlineTree_addFile)

section \<open>The upload loop\<close>

lemma chunkSizeFixed_pos: "0 < chunkSizeFixed cfg"
  by (simp add: chunkSizeFixed_def split: option.splits)
























section \<open>Events of an upload\<close>







section \<open>A locked asset\<close>






section \<open>Progress reports\<close>

text \<open>
  C8 (a progress event reports the bytes read of the current chunk plus the chunk's
  starting offset) fails on the code. \<^verbatim>\<open>_uploadChunk\<close> computes
  \<^verbatim>\<open>progress.read + chunkOffset - chunkSize\<close>, although its comment says that the chunk
  offset is added: for the only chunk of a file of five bytes, a report of three bytes
  read is emitted with \<open>read = 3 + 0 - 5 = -2\<close> and not with \<open>3 + 0 = 3\<close>.
\<close>

theorem progress_read_subtracts_chunk_size:
  "fst (uploadChunk reportingEnv 0 True 0 5 (chunkSizeFixed defaultConfig) False) =
     [SubmitChunk \<lparr> chunkedHeaders = True, replaceAsset = False, fileOffset = None,
                    chunkLength = 5, fileLength = 5, fileCompleted = False,
                    readStart = 0, readEnd = 4 \<rparr>,
      EmitSyncFileProgress \<lparr> progressPath = ''/u.jpg'', read = - 2, total = 5, rate = 1 \<rparr>]"
  by (simp add: uploadChunk_def reportingEnv_def quietEnv_def chunkSizeFixed_def
      defaultConfig_def Let_def)

section \<open>Names beginning with a period\<close>

lemma splitPath_nonempty: "splitPath p \<noteq> []"
  by (induction p) (auto split: list.splits)

lemma matchSlashDot_segments:
  "matchSlashDot p \<longleftrightarrow> (\<exists>seg \<in> set (tl (splitPath p)). \<exists>name. seg = CHR ''.'' # name)"
proof (induction p rule: matchSlashDot.induct)
  case (1 a b cs)
  obtain s ss where sp: "splitPath cs = s # ss"
    using splitPath_nonempty [of cs] by (cases "splitPath cs") auto
  obtain t ts where tp: "splitPath (b # cs) = t # ts"
    using splitPath_nonempty [of "b # cs"] by (cases "splitPath (b # cs)") auto
  have hd: "t = (if b = CHR ''/'' then [] else b # s)" and tl: "ts = (if b = CHR ''/'' then s # ss else ss)"
    using tp sp by (auto split: if_splits)
  show ?case
  proof (cases "a = CHR ''/''")
    case True
    then have "tl (splitPath (a # b # cs)) = t # ts" using tp by simp
    moreover have "(\<exists>name. t = CHR ''.'' # name) \<longleftrightarrow> b = CHR ''.''"
      using hd by auto
    moreover have "tl (splitPath (b # cs)) = ts" using tp by simp
    ultimately show ?thesis using "1.IH" True by auto
  next
    case False
    then have "tl (splitPath (a # b # cs)) = ts" using tp by simp
    moreover have "tl (splitPath (b # cs)) = ts" using tp by simp
    ultimately show ?thesis using "1.IH" False by simp
  qed
qed simp_all

text \<open>
  C9. Remote paths are absolute: they begin with a slash. For such a path of which any
  segment, not only the last, begins with a period, \<^verbatim>\<open>_updateResource\<close>,
  \<^verbatim>\<open>_createFileResource\<close> and \<^verbatim>\<open>_deleteResource\<close> do nothing but emit one sync-file error for
  the path and then pass a NOT_SUPPORTED error to the callback; in particular they make no
  HTTP request.
\<close>

theorem dot_segment_is_refused:
  assumes "path = CHR ''/'' # rest"
    and "seg \<in> set (splitPath path)"
    and "seg = CHR ''.'' # name"
  shows "updateResource e cfg path localPath =
           ([EmitSyncFileError path PUT
               (Raw (''files containing names beginning with a period are forbidden: '' @ path))
               None],
            Some (SMBError STATUS_NOT_SUPPORTED
               ''files containing names beginning with a period are forbidden'')) \<and>
         createFileResource e cfg path localPath opts =
           ([EmitSyncFileError path POST
               (Raw (''files containing names beginning with a period are forbidden: '' @ path))
               (if includeLocalPath opts then localPath else None)],
            Some (SMBError STATUS_NOT_SUPPORTED
               ''files containing names beginning with a period are forbidden'')) \<and>
         deleteResource e path isFile =
           ([EmitSyncFileError path DELETE
               (Raw (''files containing names beginning with a period are forbidden: '' @ path))
               None],
            Some (SMBError STATUS_NOT_SUPPORTED
               ''files containing names beginning with a period are forbidden'')) \<and>
         filter isHttpRequest (fst (updateResource e cfg path localPath)) = [] \<and>
         filter isHttpRequest (fst (createFileResource e cfg path localPath opts)) = [] \<and>
         filter isHttpRequest (fst (deleteResource e path isFile)) = []"
proof -
  from assms have "seg \<in> set (tl (splitPath path))" by auto
  with assms(3) have m: "matchSlashDot path"
    using matchSlashDot_segments [of path] by blast
  then show ?thesis
    by (simp add: updateResource_def createFileResource_def deleteResource_def checkDotFile_def
        noOptions_def)
qed

theorem dot_segment_is_refused_witness:
  "''.b'' \<in> set (splitPath ''/a/.b/c'') \<and>
   updateResource quietEnv defaultConfig ''/a/.b/c'' (Some ''/tmp/c'') =
     ([EmitSyncFileError ''/a/.b/c'' PUT
         (Raw ''files containing names beginning with a period are forbidden: /a/.b/c'') None],
      Some (SMBError STATUS_NOT_SUPPORTED
         ''files containing names beginning with a period are forbidden'')) \<and>
   filter isHttpRequest (fst (deleteResource quietEnv ''/a/.b/c'' True)) = []"
proof -
  have seg: "''.b'' \<in> set (splitPath ''/a/.b/c'')" by simp
  from dot_segment_is_refused [OF refl seg refl, of quietEnv defaultConfig "Some ''/tmp/c''" noOptions True]
  show ?thesis using seg by simp
qed

section \<open>The request queue\<close>

lemma queued_setEntry:
  "queued (setEntry q p m) p' = (if p' = p then Some m else queued q p')"
  by (induction q) auto

lemma queued_removeEntry:
  "queued (removeEntry q p) p' = (if p' = p then None else queued q p')"
  by (induction q) auto

lemma queued_enqueue:
  "queued (enqueue q p m) p' = (if p' = p then coalesce (queued q p) m else queued q p')"
  by (simp add: enqueue_def queued_setEntry queued_removeEntry split: option.splits)

lemma setEntry_unqueued: "queued q p = None \<Longrightarrow> setEntry q p m = q @ [(p, m)]"
  by (induction q) (auto split: if_splits)

lemma queued_append:
  "queued (q @ q') p = (case queued q p of None \<Rightarrow> queued q' p | Some m \<Rightarrow> Some m)"
  by (induction q) auto

lemma coalesce_DELETE:
  "coalesce (Some m) DELETE = (if m = PUT then None else Some DELETE)"
  by (cases m) simp_all

text \<open>
  C2, as the queue has it. Take a normal (non-temp) source without a queue entry and a
  normal destination. \<^verbatim>\<open>queueData(source, 'MOVE', destination)\<close> changes the entries of no
  other path. When the two paths differ it leaves a DELETE entry for the source, and for
  the destination what the coalescing table gives for a PUT: a PUT when the destination
  had no entry or a PUT, and a POST when it had a DELETE or a POST; when the destination
  had no entry the queue is the old one followed by exactly the two entries
  (source: DELETE, destination: PUT). Moving a path onto itself leaves it a POST.

  When a normal source with a queue entry is moved to a temp destination, nothing is
  enqueued for the destination and no other entry changes. The entry of the source is
  cleared when it was a PUT (a file created locally and not uploaded yet); otherwise,
  so when it was a POST or a DELETE, the source keeps a DELETE entry.
\<close>

theorem queueData_move:
  "(\<not> isTempName src \<and> \<not> isTempName dst \<and> queued q src = None \<longrightarrow>
      (src \<noteq> dst \<longrightarrow>
         queued (queueData q src MOVE (Some dst)) src = Some DELETE \<and>
         (queued q dst = None \<or> queued q dst = Some PUT \<longrightarrow>
            queued (queueData q src MOVE (Some dst)) dst = Some PUT) \<and>
         (queued q dst = Some DELETE \<or> queued q dst = Some POST \<longrightarrow>
            queued (queueData q src MOVE (Some dst)) dst = Some POST) \<and>
         (queued q dst = None \<longrightarrow>
            queueData q src MOVE (Some dst) = q @ [(src, DELETE), (dst, PUT)])) \<and>
      (src = dst \<longrightarrow> queued (queueData q src MOVE (Some dst)) src = Some POST) \<and>
      (\<forall>p. p \<noteq> src \<and> p \<noteq> dst \<longrightarrow>
           queued (queueData q src MOVE (Some dst)) p = queued q p)) \<and>
   (\<not> isTempName src \<and> isTempName tmp \<and> queued q src = Some m \<longrightarrow>
      queued (queueData q src MOVE (Some tmp)) src = (if m = PUT then None else Some DELETE) \<and>
      (m = PUT \<longrightarrow> queueData q src MOVE (Some tmp) = removeEntry q src) \<and>
      queued (queueData q src MOVE (Some tmp)) tmp = queued q tmp \<and>
      (\<forall>p. p \<noteq> src \<longrightarrow> queued (queueData q src MOVE (Some tmp)) p = queued q p))"
proof (intro conjI impI)
  assume a: "\<not> isTempName src \<and> \<not> isTempName dst \<and> queued q src = None"
  then have qd: "queueData q src MOVE (Some dst) = enqueue (enqueue q src DELETE) dst PUT"
    by (simp add: queueData_def)
  show "\<forall>p. p \<noteq> src \<and> p \<noteq> dst \<longrightarrow> queued (queueData q src MOVE (Some dst)) p = queued q p"
    by (simp add: qd queued_enqueue)
  {
    assume "src = dst"
    with a show "queued (queueData q src MOVE (Some dst)) src = Some POST"
      by (simp add: queueData_def queued_enqueue)
  }
  {
    assume ne: "src \<noteq> dst"
    with a show "queued (queueData q src MOVE (Some dst)) src = Some DELETE"
      by (simp add: qd queued_enqueue)
    {
      assume "queued q dst = None \<or> queued q dst = Some PUT"
      with ne show "queued (queueData q src MOVE (Some dst)) dst = Some PUT"
        by (auto simp: qd queued_enqueue)
    }
    {
      assume "queued q dst = Some DELETE \<or> queued q dst = Some POST"
      with ne show "queued (queueData q src MOVE (Some dst)) dst = Some POST"
        by (auto simp: qd queued_enqueue)
    }
    {
      assume none: "queued q dst = None"
      from a have first: "enqueue q src DELETE = q @ [(src, DELETE)]"
        by (simp add: enqueue_def setEntry_unqueued)
      from none ne have "queued (q @ [(src, DELETE)]) dst = None"
        by (simp add: queued_append)
      then have "enqueue (q @ [(src, DELETE)]) dst PUT = (q @ [(src, DELETE)]) @ [(dst, PUT)]"
        by (simp add: enqueue_def setEntry_unqueued)
      then show "queueData q src MOVE (Some dst) = q @ [(src, DELETE), (dst, PUT)]"
        by (simp add: qd first)
    }
  }
next
  assume a: "\<not> isTempName src \<and> isTempName tmp \<and> queued q src = Some m"
  then have qd: "queueData q src MOVE (Some tmp) = enqueue q src DELETE"
    by (simp add: queueData_def)
  from a have ne: "src \<noteq> tmp" by auto
  from a show "queued (queueData q src MOVE (Some tmp)) src = (if m = PUT then None else Some DELETE)"
    by (simp add: qd queued_enqueue coalesce_DELETE)
  show "queued (queueData q src MOVE (Some tmp)) tmp = queued q tmp"
    using ne by (simp add: qd queued_enqueue)
  show "\<forall>p. p \<noteq> src \<longrightarrow> queued (queueData q src MOVE (Some tmp)) p = queued q p"
    by (simp add: qd queued_enqueue)
  {
    assume "m = PUT"
    with a show "queueData q src MOVE (Some tmp) = removeEntry q src"
      by (simp add: qd enqueue_def)
  }
qed

lemma sample_names:
  "\<not> isTempName ''/testfile''" "\<not> isTempName ''/testfile2''" "isTempName ''/.tempfile''"
  by (simp_all add: isTempName_def nameOf_def)

theorem queueData_move_witness:
  "\<not> isTempName ''/testfile'' \<and> \<not> isTempName ''/testfile2'' \<and> isTempName ''/.tempfile'' \<and>
   queueData [] ''/testfile'' MOVE (Some ''/testfile2'') =
     [(''/testfile'', DELETE), (''/testfile2'', PUT)] \<and>
   queued [(''/testfile2'', DELETE)] ''/testfile'' = None \<and>
   queued (queueData [(''/testfile2'', DELETE)] ''/testfile'' MOVE (Some ''/testfile2''))
     ''/testfile2'' = Some POST \<and>
   queued [(''/testfile'', PUT)] ''/testfile'' = Some PUT \<and>
   queueData [(''/testfile'', PUT)] ''/testfile'' MOVE (Some ''/.tempfile'') = [] \<and>
   queued [(''/testfile'', POST)] ''/testfile'' = Some POST \<and>
   queued (queueData [(''/testfile'', POST)] ''/testfile'' MOVE (Some ''/.tempfile''))
     ''/testfile'' = Some DELETE"
proof -
  have "queueData [] ''/testfile'' MOVE (Some ''/testfile2'') =
     [(''/testfile'', DELETE), (''/testfile2'', PUT)]"
    using queueData_move [of "''/testfile''" "''/testfile2''" "[]"] sample_names by simp
  moreover have "queued (queueData [(''/testfile2'', DELETE)] ''/testfile'' MOVE (Some ''/testfile2''))
     ''/testfile2'' = Some POST"
    using queueData_move [of "''/testfile''" "''/testfile2''" "[(''/testfile2'', DELETE)]"]
      sample_names
    by simp
  moreover have "queueData [(''/testfile'', PUT)] ''/testfile'' MOVE (Some ''/.tempfile'') = []"
    using queueData_move [of "''/testfile''" _ "[(''/testfile'', PUT)]" "''/.tempfile''" PUT]
      sample_names
    by simp
  moreover have "queued (queueData [(''/testfile'', POST)] ''/testfile'' MOVE (Some ''/.tempfile''))
     ''/testfile'' = Some DELETE"
    using queueData_move [of "''/testfile''" _ "[(''/testfile'', POST)]" "''/.tempfile''" POST]
      sample_names
    by simp
  ultimately show ?thesis using sample_names by simp
qed

text \<open>The claim as it is written does not hold of the queue: with a DELETE queued for the
  destination, an unqueued normal source moved to it leaves the destination a POST, not a
  PUT; and a normal source with a queued POST moved to a temp destination keeps a DELETE
  entry.\<close>

theorem queueData_move_counterexample:
  "\<not> isTempName ''/testfile'' \<and> \<not> isTempName ''/testfile2'' \<and> isTempName ''/.tempfile'' \<and>
   queued [(''/testfile2'', DELETE)] ''/testfile'' = None \<and>
   queueData [(''/testfile2'', DELETE)] ''/testfile'' MOVE (Some ''/testfile2'') =
     [(''/testfile2'', POST), (''/testfile'', DELETE)] \<and>
   queued [(''/testfile'', POST)] ''/testfile'' = Some POST \<and>
   queueData [(''/testfile'', POST)] ''/testfile'' MOVE (Some ''/.tempfile'') =
     [(''/testfile'', DELETE)]"
  by (simp add: isTempName_def nameOf_def queueData_def enqueue_def)

section \<open>Visibility when the remote fails\<close>

text \<open>
  C7. When the remote lookup of \<^verbatim>\<open>exists\<close> fails, \<^verbatim>\<open>exists\<close> still completes without an
  error: it answers what the local tree answers, and so it answers false whenever the
  remote is consulted at all, that is for a normal path that the local tree does not have
  and that has no DELETE queued.
\<close>

theorem exists_remote_failure:
  "(local = Inr b \<longrightarrow> exists_path q path local (Inl failure) = Inr b) \<and>
   (\<not> isTempName path \<and> local = Inr False \<and> queued q path \<noteq> Some DELETE \<longrightarrow>
      exists_path q path local (Inl (NetworkError msg)) = Inr False)"
  by (cases b) (simp_all add: exists_path_def)

theorem exists_remote_failure_witness:
  "\<not> isTempName ''/testfile'' \<and> queued [] ''/testfile'' \<noteq> Some DELETE \<and>
   exists_path [] ''/testfile'' (Inr False) (Inl (NetworkError ''forced unit test error'')) =
     Inr False"
  using exists_remote_failure
    [of "Inr False" False "[]" "''/testfile''" "NetworkError ''forced unit test error''"
        "''forced unit test error''"]
    sample_names
  by simp

end
